theory Spec2Isabelle
  imports Complex_Main
begin

section \<open>SimpleApi: the two endpoints of app/main.py\<close>

text \<open>
  The module declares a FastAPI application with two path operations:
  \<^verbatim>\<open>
  @app.get("/ping")
  def ping():
      return JSONResponse(content={"status": "ok"})

  class AddRequest(BaseModel):
      a: int
      b: int

  @app.post("/add")
  def add(data: AddRequest):
      return JSONResponse(content={"a": data.a, "b": data.b, "result": data.a + data.b})
  \<close>
  The handlers are embedded as they are written. What the decorators and the
  \<open>BaseModel\<close> declaration delegate to the framework (decoding the body, validating it
  against \<open>AddRequest\<close>, answering 422 when validation fails) is embedded beside them, in
  the subsection on the request boundary, following FastAPI with pydantic 2 in its default
  (lax) mode. Python integers are unbounded and are values of type \<open>int\<close>.
\<close>

subsection \<open>JSON values\<close>

text \<open>
  A value as Python's \<open>json\<close> decoder produces it. A decoded float is kept by its exact
  rational value; the decoder also accepts the tokens \<open>Infinity\<close>, \<open>-Infinity\<close> and
  \<open>NaN\<close>. An object is kept as the sequence of its members as written.
\<close>

datatype pyfloat = Finite rat | Infinite | NaN

datatype json =
    JNull
  | JBool bool
  | JInt int
  | JFloat pyfloat
  | JStr string
  | JArr "json list"
  | JObj "(string \<times> json) list"

text \<open>Looking a key up in a decoded object: of a repeated key the last member stays.\<close>

definition dict_get :: "(string \<times> json) list \<Rightarrow> string \<Rightarrow> json option" where
  "dict_get kvs k = map_of (rev kvs) k"


subsection \<open>Responses\<close>

text \<open>
  A validation failure is reported as a list of entries, each with the location of the
  offending value (\<open>["body"]\<close> or \<open>["body", field]\<close>) and the kind of the failure. The
  human-readable message of an entry is not part of the model. A response is kept as its
  status code and its content; rendering the content to bytes is not part of the model.
\<close>

datatype error_type =
    missing
  | int_type
  | int_parsing
  | int_from_float
  | int_parsing_size
  | finite_number
  | model_attributes_type

record validation_error =
  loc :: "string list"
  err_type :: error_type

datatype payload = Content json | Detail "validation_error list"

record response =
  status_code :: nat
  payload :: payload

text \<open>\<open>JSONResponse(content=c)\<close>: the status code is the constructor's default, 200.\<close>

definition JSONResponse :: "json \<Rightarrow> response" where
  "JSONResponse c = \<lparr>status_code = 200, payload = Content c\<rparr>"

text \<open>
  The framework's handler for a request that fails validation: status 422 and the body
  \<open>{"detail": [...]}\<close> listing the entries.
\<close>

definition request_validation_exception_handler :: "validation_error list \<Rightarrow> response" where
  "request_validation_exception_handler errs = \<lparr>status_code = 422, payload = Detail errs\<rparr>"

subsection \<open>The handlers\<close>

record AddRequest =
  a :: int
  b :: int

definition ping :: response where
  "ping = JSONResponse (JObj [(''status'', JStr ''ok'')])"

definition add :: "AddRequest \<Rightarrow> response" where
  "add data =
     JSONResponse (JObj [(''a'', JInt (a data)), (''b'', JInt (b data)),
                         (''result'', JInt (a data + b data))])"

subsection \<open>The request boundary: validating a body against AddRequest\<close>

text \<open>
  A field annotated \<open>int\<close> accepts, in lax mode: an integer as it is; a boolean as 0 or 1;
  a finite float with no fractional part inside the 64-bit range; a string that, with
  surrounding whitespace removed, is an optional sign followed by decimal digits.
  Everything else is rejected with the kind of failure the validator reports. Other
  spellings of a number inside a string (digit separators, a trailing \<open>.0\<close>) are rejected
  here.
\<close>

definition is_space :: "char \<Rightarrow> bool" where
  "is_space c = (let n = (of_char c :: nat) in n = 32 \<or> (9 \<le> n \<and> n \<le> 13))"

definition trim :: "string \<Rightarrow> string" where
  "trim s = rev (dropWhile is_space (rev (dropWhile is_space s)))"

definition digit_of :: "char \<Rightarrow> nat option" where
  "digit_of c =
     (let n = (of_char c :: nat) in if 48 \<le> n \<and> n \<le> 57 then Some (n - 48) else None)"

fun digits_value :: "string \<Rightarrow> nat \<Rightarrow> nat option" where
  "digits_value [] acc = Some acc"
| "digits_value (c # cs) acc =
     (case digit_of c of None \<Rightarrow> None | Some d \<Rightarrow> digits_value cs (10 * acc + d))"

definition unsigned_int :: "string \<Rightarrow> int option" where
  "unsigned_int s = (if s = [] then None else map_option int (digits_value s 0))"

definition str_as_int :: "string \<Rightarrow> int option" where
  "str_as_int s =
     (case trim s of
        [] \<Rightarrow> None
      | c # cs \<Rightarrow>
          if c = CHR ''-'' then map_option uminus (unsigned_int cs)
          else if c = CHR ''+'' then unsigned_int cs
          else unsigned_int (c # cs))"

definition float_as_int :: "pyfloat \<Rightarrow> error_type + int" where
  "float_as_int f =
     (case f of
        Finite q \<Rightarrow>
          if of_int \<lfloor>q\<rfloor> \<noteq> q then Inl int_from_float
          else if - (2 ^ 63) < q \<and> q < 2 ^ 63 then Inr \<lfloor>q\<rfloor>
          else Inl int_parsing_size
      | Infinite \<Rightarrow> Inl finite_number
      | NaN \<Rightarrow> Inl finite_number)"

definition int_validator :: "json \<Rightarrow> error_type + int" where
  "int_validator v =
     (case v of
        JInt n \<Rightarrow> Inr n
      | JBool t \<Rightarrow> Inr (if t then 1 else 0)
      | JFloat f \<Rightarrow> float_as_int f
      | JStr s \<Rightarrow> (case str_as_int s of None \<Rightarrow> Inl int_parsing | Some n \<Rightarrow> Inr n)
      | JNull \<Rightarrow> Inl int_type
      | JArr _ \<Rightarrow> Inl int_type
      | JObj _ \<Rightarrow> Inl int_type)"

text \<open>
  One field of the model: absent from the object, or present and sent through the
  validator. A failure is located at \<open>["body", field]\<close>.
\<close>

definition validate_field :: "(string \<times> json) list \<Rightarrow> string \<Rightarrow> validation_error + int" where
  "validate_field kvs name =
     (case dict_get kvs name of
        None \<Rightarrow> Inl \<lparr>loc = [''body'', name], err_type = missing\<rparr>
      | Some v \<Rightarrow>
          (case int_validator v of
             Inl t \<Rightarrow> Inl \<lparr>loc = [''body'', name], err_type = t\<rparr>
           | Inr n \<Rightarrow> Inr n))"

definition field_errors :: "validation_error + int \<Rightarrow> validation_error list" where
  "field_errors r = (case r of Inl e \<Rightarrow> [e] | Inr _ \<Rightarrow> [])"

text \<open>
  The whole body: both fields are validated, in the order of their declaration, and every
  failure is collected; members other than \<open>a\<close> and \<open>b\<close> are ignored. A body that is
  \<open>null\<close> counts as absent, any other body that is not an object is rejected as such.
\<close>

definition model_validate :: "json \<Rightarrow> validation_error list + AddRequest" where
  "model_validate body =
     (case body of
        JObj kvs \<Rightarrow>
          (case (validate_field kvs ''a'', validate_field kvs ''b'') of
             (Inr x, Inr y) \<Rightarrow> Inr \<lparr>a = x, b = y\<rparr>
           | (ra, rb) \<Rightarrow> Inl (field_errors ra @ field_errors rb))
      | JNull \<Rightarrow> Inl [\<lparr>loc = [''body''], err_type = missing\<rparr>]
      | _ \<Rightarrow> Inl [\<lparr>loc = [''body''], err_type = model_attributes_type\<rparr>])"

text \<open>
  \<open>POST /add\<close> as the decorated function is served: the body is validated first, and
  \<open>add\<close> is called only with a validated \<open>AddRequest\<close>.
\<close>

definition add_endpoint :: "json \<Rightarrow> response" where
  "add_endpoint body =
     (case model_validate body of
        Inl errs \<Rightarrow> request_validation_exception_handler errs
      | Inr data \<Rightarrow> add data)"

subsection \<open>Serving requests\<close>

text \<open>
  The two operations the module registers. Neither handler reads or writes anything
  outside its argument, so serving a request returns the server's state, whatever it is,
  as it was.
\<close>

datatype request = GET_ping | POST_add json

definition endpoint :: "request \<Rightarrow> response" where
  "endpoint r = (case r of GET_ping \<Rightarrow> ping | POST_add body \<Rightarrow> add_endpoint body)"

definition serve :: "'s \<Rightarrow> request \<Rightarrow> response \<times> 's" where
  "serve s r = (endpoint r, s)"


section \<open>Properties\<close>

subsection \<open>Auxiliary facts\<close>

lemmas endpoint_defs =
  add_endpoint_def model_validate_def validate_field_def field_errors_def dict_get_def
  int_validator_def add_def JSONResponse_def request_validation_exception_handler_def

lemmas str_defs = str_as_int_def trim_def is_space_def unsigned_int_def digit_of_def








subsection \<open>Adding two integers\<close>


subsection \<open>Rejected bodies\<close>




text \<open>
  C4. \<open>POST /add\<close> with the body \<open>{"a": "x", "b": 2}\<close> is answered with status 422 and a
  validation entry located at field \<open>a\<close>.
\<close>

theorem add_string_a_rejected:
  "add_endpoint (JObj [(''a'', JStr ''x''), (''b'', JInt 2)]) =
     \<lparr>status_code = 422,
      payload = Detail [\<lparr>loc = [''body'', ''a''], err_type = int_parsing\<rparr>]\<rparr>"
  by (simp add: endpoint_defs str_defs)



subsection \<open>Liveness probe\<close>

text \<open>
  C3. Every \<open>GET /ping\<close> request is answered with status 200 and exactly the content
  \<open>{"status": "ok"}\<close>; the handler takes no input, has no branch that fails, and serving
  the request leaves the server's state as it was.
\<close>

theorem ping_ok:
  "ping = \<lparr>status_code = 200, payload = Content (JObj [(''status'', JStr ''ok'')])\<rparr>
   \<and> serve s GET_ping = (ping, s)"
  by (simp add: ping_def JSONResponse_def serve_def endpoint_def)

subsection \<open>Every request is answered\<close>


subsection \<open>Statelessness\<close>


subsection \<open>Exact addition\<close>



subsection \<open>Lax coercion\<close>



subsection \<open>The answer echoes the validated input\<close>



end
